theory Spec2Isabelle
  imports
    Complex_Main
    "HOL-Library.Multiset"
    "HOL-Library.Product_Lexorder"
    "HOL-Library.AList"
    "HOL-Library.Log_Nat"
begin

section \<open>The Bybit deviation monitor: data model\<close>

text \<open>
  The Python source is one module. Its functions are embedded here under their own names.
  A Python float is an IEEE binary64 number. The model keeps the value of a finite float
  as a real number and rounds the result of every conversion and of every arithmetic
  operation to the nearest binary64 value, as the interpreter does (function \<open>fl\<close> below).
  Overflow to an infinity, and with it NaN, is outside the model, and so is the sign of a
  zero. Strings are the byte lists of UTF-8 text.
\<close>

datatype py_error = KeyError | ValueError | TypeError | AttributeError | ZeroDivisionError

text \<open>
  One item of the ticker snapshot is a JSON object. What the source does with the entry
  under \<^verbatim>\<open>'symbol'\<close> depends on whether the key is there and holds a string:
  \<^verbatim>\<open>item['symbol']\<close> raises KeyError on a missing key, and \<^verbatim>\<open>.upper()\<close> raises
  AttributeError on a value that is no string (JSON null).
\<close>

datatype sym_field = No_symbol | Null_symbol | Symbol string

text \<open>
  What \<^verbatim>\<open>float(item[k])\<close> does depends on the entry under \<^verbatim>\<open>k\<close>: a missing key
  (KeyError), JSON null (TypeError), a string that is no numeral (ValueError), or a number
  or numeric string, which is represented by the number its text denotes; \<^verbatim>\<open>float\<close> then
  returns the float nearest to that number.
\<close>

datatype num_field = No_value | Null_value | Not_numeric | Numeric real

record ticker =
  symbol :: sym_field
  markPrice :: num_field
  indexPrice :: num_field
  fundingRate :: num_field

text \<open>
  The text of \<^verbatim>\<open>f"{x:.nf}"\<close> is represented by the decimal numeral it shows:
  \<open>Fixed n k\<close> is the numeral with \<open>n\<close> fractional digits whose value is \<open>k / 10 ^ n\<close>.
  Python rounds the exact value to the nearest such numeral, a tie going to the even one.
\<close>

datatype fixed = Fixed (places: nat) (units: int)

definition round_half_even :: "real \<Rightarrow> int" where
  "round_half_even x =
     (let f = \<lfloor>x\<rfloor>; d = x - of_int f
      in if d < 1 / 2 then f
         else if 1 / 2 < d then f + 1
         else if even f then f else f + 1)"

text \<open>
  Rounding to binary64. \<open>pow2 e\<close> is the power of two with exponent \<open>e\<close>, and \<open>ilog2 x\<close>
  is the exponent of the binade of a positive \<open>x\<close>: the power of two at \<open>ilog2 x\<close> is at
  most \<open>x\<close> and the next one is above it. A binary64 number has 53 significant bits, so
  the numbers of the binade with exponent \<open>e\<close> are the multiples of the power of two at
  \<open>e - 52\<close>; below the exponent -1022 the spacing stays that of this binade (gradual
  underflow). \<open>fl x\<close> is the multiple nearest to \<open>x\<close>, a tie going to the even one.
\<close>

definition pow2 :: "int \<Rightarrow> real" where
  "pow2 e = (if 0 \<le> e then 2 ^ nat e else 1 / 2 ^ nat (- e))"

definition ilog2 :: "real \<Rightarrow> int" where
  "ilog2 x = (if 1 \<le> x then bitlen \<lfloor>x\<rfloor> - 1 else - bitlen (\<lceil>1 / x\<rceil> - 1))"

definition fl :: "real \<Rightarrow> real" where
  "fl x =
     (if x = 0 then 0
      else (let e = max (ilog2 \<bar>x\<bar>) (- 1022);
                ulp = pow2 (e - 52)
            in of_int (round_half_even (x / ulp)) * ulp))"

definition format_f :: "nat \<Rightarrow> real \<Rightarrow> fixed" where
  "format_f n x = Fixed n (round_half_even (x * 10 ^ n))"

text \<open>\<^verbatim>\<open>float(s)\<close> on the text of a formatted number: the float nearest to the numeral.\<close>

definition float_of_fixed :: "fixed \<Rightarrow> real" where
  "float_of_fixed t = fl (of_int (units t) / 10 ^ places t)"

text \<open>One entry of \<^verbatim>\<open>token_map\<close>: the dictionary with keys \<^verbatim>\<open>platform\<close> and \<^verbatim>\<open>type\<close>.\<close>

record platform_info =
  pi_platform :: string
  pi_type :: string

type_synonym token_map = "string \<rightharpoonup> platform_info list"

text \<open>
  An element of \<^verbatim>\<open>arbitrage_list\<close>. The source stores formatted text in every field;
  the deviation and the funding rate carry a trailing percent sign, which is left implicit.
\<close>

record arbitrage_entry =
  token :: string
  deviation :: fixed
  funding_rate :: fixed
  index_price :: fixed
  mark_price :: fixed

text \<open>An element of \<^verbatim>\<open>platform_list\<close>; here the two numbers are kept as floats.\<close>

record opportunity =
  pair :: string
  o_deviation :: real
  o_funding_rate :: real
  o_type :: string
  o_platform :: string

text \<open>A row of \<^verbatim>\<open>main_table\<close>: token, mark price, index price, settlement currency.\<close>

type_synonym main_row = "string \<times> fixed \<times> fixed \<times> string"

text \<open>
  The module-level configuration constants, gathered in one record. The literal
  \<^verbatim>\<open>0.4\<close> of the source is the float nearest to four tenths.
\<close>

record config =
  UPDATE_JSON :: string
  DEVIATION_THRESHOLD :: real
  ARBITRAGE_THRESHOLD_CONTRACT :: real
  ARBITRAGE_THRESHOLD_LENDING :: real
  DISPLAY_CONFIG :: "string \<rightharpoonup> string"

definition source_config :: config where
  "source_config =
     \<lparr>UPDATE_JSON = ''no'',
      DEVIATION_THRESHOLD = fl (4 / 10),
      ARBITRAGE_THRESHOLD_CONTRACT = 1,
      ARBITRAGE_THRESHOLD_LENDING = 3,
      DISPLAY_CONFIG = [''*'' \<mapsto> ''no'']\<rparr>"

section \<open>Strings\<close>

definition upper_char :: "char \<Rightarrow> char" where
  "upper_char c =
     (let n = (of_char c :: nat)
      in if 97 \<le> n \<and> n \<le> 122 then char_of (n - 32) else c)"

definition ascii :: "char \<Rightarrow> bool" where
  "ascii c = ((of_char c :: nat) < 128)"

text \<open>
  \<^verbatim>\<open>str.upper\<close>. On ASCII text it maps the letters a to z to A to Z and keeps every
  other character. On text with other characters it follows the case mapping of the
  Unicode character database, which is not part of the repository: that mapping, from
  UTF-8 text to UTF-8 text, is the parameter \<open>uc\<close>.
\<close>

definition upper :: "(string \<Rightarrow> string) \<Rightarrow> string \<Rightarrow> string" where
  "upper uc s = (if list_all ascii s then map upper_char s else uc s)"

definition lower_char :: "char \<Rightarrow> char" where
  "lower_char c =
     (let n = (of_char c :: nat)
      in if 65 \<le> n \<and> n \<le> 90 then char_of (n + 32) else c)"

text \<open>
  \<^verbatim>\<open>str.lower\<close>, used only in the test \<^verbatim>\<open>UPDATE_JSON.lower() == "yes"\<close>. No character
  outside ASCII has y, e or s as its lower case, so the test holds exactly when the ASCII
  mapping gives the three bytes of yes.
\<close>

definition lower :: "string \<Rightarrow> string" where
  "lower s = map lower_char s"

definition endswith :: "string \<Rightarrow> string \<Rightarrow> bool" where
  "endswith s suf = (length suf \<le> length s \<and> drop (length s - length suf) s = suf)"

text \<open>The slice \<^verbatim>\<open>s[:-4]\<close>; it is empty when \<open>s\<close> has fewer than four characters.\<close>

definition drop_last4 :: "string \<Rightarrow> string" where
  "drop_last4 s = take (length s - 4) s"

text \<open>\<^verbatim>\<open>s.split('_')[0]\<close>: the text before the first underscore.\<close>

definition split_first :: "string \<Rightarrow> string" where
  "split_first s = takeWhile (\<lambda>c. c \<noteq> CHR ''_'') s"

section \<open>process_data\<close>

definition py_float :: "num_field \<Rightarrow> py_error + real" where
  "py_float v =
     (case v of
        No_value \<Rightarrow> Inl KeyError
      | Null_value \<Rightarrow> Inl TypeError
      | Not_numeric \<Rightarrow> Inl ValueError
      | Numeric x \<Rightarrow> Inr (fl x))"

text \<open>
  The body of the \<^verbatim>\<open>try\<close> block: three conversions in the order of the source, the
  third followed by a float multiplication.
\<close>

definition parse_prices :: "ticker \<Rightarrow> py_error + (real \<times> real \<times> real)" where
  "parse_prices item =
     (case py_float (markPrice item) of
        Inl e \<Rightarrow> Inl e
      | Inr mark \<Rightarrow>
          (case py_float (indexPrice item) of
             Inl e \<Rightarrow> Inl e
           | Inr index \<Rightarrow>
               (case py_float (fundingRate item) of
                  Inl e \<Rightarrow> Inl e
                | Inr rate \<Rightarrow> Inr (mark, index, fl (rate * 100)))))"

definition base_token_of :: "string \<Rightarrow> string" where
  "base_token_of s = (if endswith s ''USDT'' then drop_last4 s else s)"

type_synonym tables = "main_row list \<times> arbitrage_entry list \<times> opportunity list"

text \<open>
  One pass of the \<^verbatim>\<open>for item in raw_data\<close> loop over the three lists built so far.
  \<^verbatim>\<open>continue\<close> returns the lists unchanged; an exception that the \<^verbatim>\<open>except\<close> clause
  does not name, or that is raised outside the \<^verbatim>\<open>try\<close> block, leaves the function.
  The deviation is three float operations: a division, a subtraction and a multiplication.
\<close>

definition loop_body :: "(string \<Rightarrow> string) \<Rightarrow> config \<Rightarrow> token_map \<Rightarrow> ticker \<Rightarrow> tables \<Rightarrow> py_error + tables" where
  "loop_body uc cfg tm item acc =
     (case acc of (main_table, arbitrage_list, platform_list) \<Rightarrow>
      (case symbol item of
         No_symbol \<Rightarrow> Inl KeyError
       | Null_symbol \<Rightarrow> Inl AttributeError
       | Symbol s \<Rightarrow>
           (let base_token = base_token_of (upper uc s)
            in case parse_prices item of
                 Inl e \<Rightarrow> (if e = KeyError \<or> e = ValueError then Inr acc else Inl e)
               | Inr (mark, index, rate) \<Rightarrow>
                   (case DISPLAY_CONFIG cfg ''*'' of
                      None \<Rightarrow> Inl KeyError
                    | Some dflt \<Rightarrow>
                        (let shown = (case DISPLAY_CONFIG cfg base_token of
                                        None \<Rightarrow> dflt | Some v \<Rightarrow> v);
                             main_table' =
                               (if shown = ''yes''
                                then main_table @
                                  [(base_token, format_f 4 mark, format_f 4 index, ''USDT'')]
                                else main_table)
                         in if mark = 0 then Inl ZeroDivisionError
                            else
                              (let dev = fl (fl (fl (index / mark) - 1) * 100)
                               in if DEVIATION_THRESHOLD cfg < \<bar>dev\<bar>
                                  then Inr (main_table',
                                    arbitrage_list @
                                      [\<lparr>token = base_token,
                                        deviation = format_f 2 dev,
                                        funding_rate = format_f 2 rate,
                                        index_price = format_f 4 index,
                                        mark_price = format_f 4 mark\<rparr>],
                                    platform_list @
                                      (case tm base_token of
                                         None \<Rightarrow> []
                                       | Some infos \<Rightarrow>
                                           map (\<lambda>info.
                                             \<lparr>pair = base_token @ ''_USDT'',
                                              o_deviation = dev,
                                              o_funding_rate = rate,
                                              o_type = pi_type info,
                                              o_platform = pi_platform info\<rparr>) infos))
                                  else Inr (main_table', arbitrage_list, platform_list)))))))"

fun process_loop :: "(string \<Rightarrow> string) \<Rightarrow> config \<Rightarrow> token_map \<Rightarrow> ticker list \<Rightarrow> tables \<Rightarrow> py_error + tables" where
  "process_loop uc cfg tm [] acc = Inr acc"
| "process_loop uc cfg tm (item # rest) acc =
     (case loop_body uc cfg tm item acc of
        Inl e \<Rightarrow> Inl e
      | Inr acc' \<Rightarrow> process_loop uc cfg tm rest acc')"

text \<open>
  \<^verbatim>\<open>list.sort(key=..., reverse=True)\<close>: a stable sort in descending key order. CPython
  reverses the list, sorts it stably in ascending order and reverses it again.
\<close>

definition sort_reverse :: "('a \<Rightarrow> 'k::linorder) \<Rightarrow> 'a list \<Rightarrow> 'a list" where
  "sort_reverse key xs = rev (sort_key key (rev xs))"

text \<open>The key \<^verbatim>\<open>abs(float(x['deviation'][:-1]))\<close> of the first sort.\<close>

definition arbitrage_key :: "arbitrage_entry \<Rightarrow> real" where
  "arbitrage_key x = \<bar>float_of_fixed (deviation x)\<bar>"

text \<open>
  The key \<^verbatim>\<open>(-abs(x['deviation']), -abs(x['funding_rate']))\<close> of the second sort;
  Python compares tuples lexicographically, as the order on pairs does here.
\<close>

definition platform_key :: "opportunity \<Rightarrow> real \<times> real" where
  "platform_key x = (- \<bar>o_deviation x\<bar>, - \<bar>o_funding_rate x\<bar>)"

definition process_data :: "(string \<Rightarrow> string) \<Rightarrow> config \<Rightarrow> ticker list \<Rightarrow> token_map \<Rightarrow> py_error + tables" where
  "process_data uc cfg raw_data tm =
     (case process_loop uc cfg tm raw_data ([], [], []) of
        Inl e \<Rightarrow> Inl e
      | Inr (main_table, arbitrage_list, platform_list) \<Rightarrow>
          Inr (main_table,
               sort_reverse arbitrage_key arbitrage_list,
               sort_key platform_key platform_list))"

section \<open>The alert records\<close>

text \<open>
  The alert message is an f-string over the pair, the magnitude of the deviation and the
  funding rate, both with two decimals, and the platform. It is represented by these four
  parts; the fixed words between them are left out.
\<close>

datatype alert_msg = Alert_msg string fixed fixed string

text \<open>An element of \<^verbatim>\<open>critical_alerts\<close>.\<close>

record alert =
  a_token :: string
  a_message :: alert_msg

text \<open>An element of the record file and of \<^verbatim>\<open>new_alerts\<close>.\<close>

record arb_record =
  r_token :: string
  r_timestamp :: int
  r_message :: alert_msg

text \<open>
  The file \<^verbatim>\<open>arbitrage_records.json\<close>: absent, present with a content that cannot be
  read or decoded, or present with a JSON list of records. Writing a list with
  \<^verbatim>\<open>json.dumps\<close> and reading it back with \<^verbatim>\<open>json.loads\<close> gives the same list, so
  the decoded list stands for the content. Every decoded record is taken to have its
  three keys.
\<close>

datatype record_file = No_file | Unreadable | Stored "arb_record list"

text \<open>
  The part of the environment the store functions touch: the file, whether a write to it
  succeeds (\<^verbatim>\<open>write_text\<close> raising is caught and reported by the source), and a count
  of the calls of \<^verbatim>\<open>save_arb_records\<close> made so far, kept to state which calls happen.
\<close>

record world =
  arb_file :: record_file
  disk_ok :: bool
  save_calls :: nat

definition load_arb_records :: "world \<Rightarrow> arb_record list" where
  "load_arb_records w = (case arb_file w of No_file \<Rightarrow> [] | Unreadable \<Rightarrow> [] | Stored rs \<Rightarrow> rs)"

definition save_arb_records :: "config \<Rightarrow> arb_record list \<Rightarrow> world \<Rightarrow> world" where
  "save_arb_records cfg records w =
     (let w' = w\<lparr>save_calls := Suc (save_calls w)\<rparr>
      in if lower (UPDATE_JSON cfg) = ''yes''
         then (if disk_ok w' then w'\<lparr>arb_file := Stored records\<rparr> else w')
         else w')"

text \<open>
  A Python dictionary keeps its keys in insertion order, and an assignment to a key that
  is present replaces the value in place: an association list under \<open>AList.update\<close>.
  \<^verbatim>\<open>{r['token']: r for r in records}\<close> assigns the records from left to right.
\<close>

type_synonym record_dict = "(string \<times> arb_record) list"

definition dict_of_records :: "arb_record list \<Rightarrow> record_dict" where
  "dict_of_records rs = fold (\<lambda>r d. AList.update (r_token r) r d) rs []"

text \<open>\<^verbatim>\<open>list(existing.values())\<close>\<close>

definition dict_values :: "record_dict \<Rightarrow> arb_record list" where
  "dict_values d = map snd d"

text \<open>
  The loop of \<^verbatim>\<open>filter_new_alerts\<close> over \<^verbatim>\<open>existing\<close> and \<^verbatim>\<open>new_alerts\<close>. The clock
  is read once per new entry in the source; the model takes one reading \<open>now\<close> per call.
\<close>

fun alert_loop :: "int \<Rightarrow> alert list \<Rightarrow> record_dict \<times> arb_record list
    \<Rightarrow> record_dict \<times> arb_record list" where
  "alert_loop now [] (existing, new_alerts) = (existing, new_alerts)"
| "alert_loop now (a # rest) (existing, new_alerts) =
     (let tok = a_token a
      in if tok \<notin> set (map fst existing)
         then (let new_entry = \<lparr>r_token = tok, r_timestamp = now, r_message = a_message a\<rparr>
               in alert_loop now rest
                    (AList.update tok new_entry existing, new_alerts @ [new_entry]))
         else alert_loop now rest (existing, new_alerts))"

definition filter_new_alerts :: "config \<Rightarrow> int \<Rightarrow> alert list \<Rightarrow> world
    \<Rightarrow> arb_record list \<times> world" where
  "filter_new_alerts cfg now current_alerts w =
     (case alert_loop now current_alerts (dict_of_records (load_arb_records w), []) of
        (existing, new_alerts) \<Rightarrow>
          (new_alerts,
           if new_alerts \<noteq> [] then save_arb_records cfg (dict_values existing) w else w))"

section \<open>The alert step of main_loop\<close>

text \<open>
  The type tag the source compares with is the Chinese word for a contract venue, two
  characters, given here by its six UTF-8 bytes.
\<close>

definition contract_tag :: string where
  "contract_tag = [CHR 0xE5, CHR 0x90, CHR 0x88, CHR 0xE7, CHR 0xBA, CHR 0xA6]"

definition alert_of :: "opportunity \<Rightarrow> alert" where
  "alert_of item =
     \<lparr>a_token = split_first (pair item),
      a_message = Alert_msg (pair item) (format_f 2 \<bar>o_deviation item\<bar>)
                    (format_f 2 (o_funding_rate item)) (o_platform item)\<rparr>"

text \<open>The loop that builds \<^verbatim>\<open>critical_alerts\<close> from \<^verbatim>\<open>platform_list\<close>.\<close>

fun critical_alerts :: "config \<Rightarrow> opportunity list \<Rightarrow> alert list" where
  "critical_alerts cfg [] = []"
| "critical_alerts cfg (item # rest) =
     (let threshold = (if o_type item = contract_tag
                       then ARBITRAGE_THRESHOLD_CONTRACT cfg
                       else ARBITRAGE_THRESHOLD_LENDING cfg)
      in if threshold \<le> \<bar>o_deviation item\<bar>
         then alert_of item # critical_alerts cfg rest
         else critical_alerts cfg rest)"

text \<open>
  One pass of the \<^verbatim>\<open>while\<close> loop without its printing: the snapshot is processed, the
  alerts are built and filtered against the record file.
\<close>

definition poll_once :: "(string \<Rightarrow> string) \<Rightarrow> config \<Rightarrow> token_map \<Rightarrow> int \<Rightarrow> ticker list \<Rightarrow> world
    \<Rightarrow> py_error + (arb_record list \<times> world)" where
  "poll_once uc cfg tm now raw_data w =
     (case process_data uc cfg raw_data tm of
        Inl e \<Rightarrow> Inl e
      | Inr (main_table, arbitrage_list, platform_list) \<Rightarrow>
          Inr (filter_new_alerts cfg now (critical_alerts cfg platform_list) w))"

text \<open>A run of the store: calls of the two functions that can write the file, in order.\<close>

datatype store_call = Filter_new int "alert list" | Save "arb_record list"

fun run_calls :: "config \<Rightarrow> store_call list \<Rightarrow> world \<Rightarrow> world" where
  "run_calls cfg [] w = w"
| "run_calls cfg (Filter_new now alerts # rest) w =
     run_calls cfg rest (snd (filter_new_alerts cfg now alerts w))"
| "run_calls cfg (Save records # rest) w =
     run_calls cfg rest (save_arb_records cfg records w)"

section \<open>Auxiliary definitions and example data\<close>

text \<open>Appending the lists one pass of the loop adds to the lists built so far.\<close>

definition hang :: "tables \<Rightarrow> tables \<Rightarrow> tables" where
  "hang acc new = (case acc of (m, a, p) \<Rightarrow> (case new of (m', a', p') \<Rightarrow> (m @ m', a @ a', p @ p')))"

text \<open>A small snapshot, a registry and a record file, used to run the functions.\<close>

definition foo_ticker :: ticker where
  "foo_ticker = \<lparr>symbol = Symbol ''FOOUSDT'', markPrice = Numeric 100,
                  indexPrice = Numeric 101, fundingRate = Numeric 0.0001\<rparr>"

definition zero_mark_ticker :: ticker where
  "zero_mark_ticker = \<lparr>symbol = Symbol ''BARUSDT'', markPrice = Numeric 0,
                  indexPrice = Numeric 101, fundingRate = Numeric 0.0001\<rparr>"

definition no_symbol_ticker :: ticker where
  "no_symbol_ticker = \<lparr>symbol = No_symbol, markPrice = Numeric 100,
                  indexPrice = Numeric 101, fundingRate = Numeric 0.0001\<rparr>"



definition foo_entry :: arbitrage_entry where
  "foo_entry = \<lparr>token = ''FOO'', deviation = Fixed 2 100, funding_rate = Fixed 2 1,
                 index_price = Fixed 4 1010000, mark_price = Fixed 4 1000000\<rparr>"

definition bar_ticker :: ticker where
  "bar_ticker = \<lparr>symbol = Symbol ''BARUSDT'', markPrice = Numeric 100,
                  indexPrice = Numeric 98, fundingRate = Numeric 0.0002\<rparr>"

definition example_token_map :: token_map where
  "example_token_map =
     [''FOO'' \<mapsto> [\<lparr>pi_platform = ''X'', pi_type = contract_tag\<rparr>,
                   \<lparr>pi_platform = ''Y'', pi_type = ''lending''\<rparr>],
      ''BAR'' \<mapsto> [\<lparr>pi_platform = ''Z'', pi_type = contract_tag\<rparr>]]"

definition near_ticker_a :: ticker where
  "near_ticker_a = \<lparr>symbol = Symbol ''AAAUSDT'', markPrice = Numeric 1024,
                  indexPrice = Numeric 1029.125, fundingRate = Numeric 0.0001\<rparr>"

definition near_ticker_b :: ticker where
  "near_ticker_b = \<lparr>symbol = Symbol ''BBBUSDT'', markPrice = Numeric 1024,
                  indexPrice = Numeric 1029.15625, fundingRate = Numeric 0.0001\<rparr>"

definition foo_alert_x :: alert where
  "foo_alert_x = \<lparr>a_token = ''FOO'',
     a_message = Alert_msg ''FOO_USDT'' (Fixed 2 100) (Fixed 2 1) ''X''\<rparr>"

definition foo_alert_y :: alert where
  "foo_alert_y = \<lparr>a_token = ''FOO'',
     a_message = Alert_msg ''FOO_USDT'' (Fixed 2 100) (Fixed 2 1) ''Y''\<rparr>"

definition foo_record :: arb_record where
  "foo_record = \<lparr>r_token = ''FOO'', r_timestamp = 100,
     r_message = Alert_msg ''FOO_USDT'' (Fixed 2 100) (Fixed 2 1) ''X''\<rparr>"

definition fresh_world :: world where
  "fresh_world = \<lparr>arb_file = No_file, disk_ok = True, save_calls = 0\<rparr>"

definition used_world :: world where
  "used_world = \<lparr>arb_file = Stored [foo_record], disk_ok = True, save_calls = 0\<rparr>"

definition persisting_config :: config where
  "persisting_config = source_config\<lparr>UPDATE_JSON := ''yes''\<rparr>"

definition near_entry_a :: arbitrage_entry where
  "near_entry_a = \<lparr>token = ''AAA'', deviation = Fixed 2 50, funding_rate = Fixed 2 1,
     index_price = Fixed 4 10291250, mark_price = Fixed 4 10240000\<rparr>"

definition near_entry_b :: arbitrage_entry where
  "near_entry_b = \<lparr>token = ''BBB'', deviation = Fixed 2 50, funding_rate = Fixed 2 1,
     index_price = Fixed 4 10291562, mark_price = Fixed 4 10240000\<rparr>"

definition bar_entry :: arbitrage_entry where
  "bar_entry = \<lparr>token = ''BAR'', deviation = Fixed 2 (- 200), funding_rate = Fixed 2 2,
     index_price = Fixed 4 980000, mark_price = Fixed 4 1000000\<rparr>"

text \<open>
  The opportunities of that snapshot carry floats: the deviations are the floats
  -2.0000000000000018 and 1.0000000000000009, the funding rates the floats 0.02 and 0.01.
\<close>

definition bar_at_z :: opportunity where
  "bar_at_z = \<lparr>pair = ''BAR_USDT'',
     o_deviation = - (1125899906842625 / 562949953421312),
     o_funding_rate = 5764607523034235 / 288230376151711744,
     o_type = contract_tag, o_platform = ''Z''\<rparr>"

definition foo_at_x :: opportunity where
  "foo_at_x = \<lparr>pair = ''FOO_USDT'',
     o_deviation = 1125899906842625 / 1125899906842624,
     o_funding_rate = 5764607523034235 / 576460752303423488,
     o_type = contract_tag, o_platform = ''X''\<rparr>"

definition foo_at_y :: opportunity where
  "foo_at_y = \<lparr>pair = ''FOO_USDT'',
     o_deviation = 1125899906842625 / 1125899906842624,
     o_funding_rate = 5764607523034235 / 576460752303423488,
     o_type = ''lending'', o_platform = ''Y''\<rparr>"

section \<open>Rounding to binary64\<close>

lemma pow2_pos: "0 < pow2 e"
  by (simp add: pow2_def)

lemma pow2_Suc: "pow2 (e + 1) = 2 * pow2 e"
proof (cases "0 \<le> e")
  case True
  then show ?thesis by (simp add: pow2_def nat_add_distrib)
next
  case False
  then have "nat (- e) = Suc (nat (- (e + 1)))" by simp
  with False show ?thesis by (simp add: pow2_def)
qed

lemma ilog2_bounds:
  assumes "0 < x"
  shows "pow2 (ilog2 x) \<le> x \<and> x < pow2 (ilog2 x + 1)"
proof (cases "1 \<le> x")
  case True
  then have pos: "0 < \<lfloor>x\<rfloor>" by simp
  let ?b = "bitlen \<lfloor>x\<rfloor>"
  from bitlen_bounds [OF pos] have lo: "2 ^ nat (?b - 1) \<le> \<lfloor>x\<rfloor>" and hi: "\<lfloor>x\<rfloor> < 2 ^ nat ?b"
    by simp_all
  have b1: "1 \<le> ?b" using pos by (simp add: bitlen_alt_def)
  have "real_of_int (2 ^ nat (?b - 1)) \<le> x"
    using lo by (meson le_floor_iff)
  moreover have "x < real_of_int (2 ^ nat ?b)"
    using hi by (metis floor_less_iff of_int_numeral of_int_power)
  ultimately show ?thesis
    using True b1 by (simp add: ilog2_def pow2_def)
next
  case False
  with assms have r: "1 < 1 / x" by simp
  let ?n = "\<lceil>1 / x\<rceil> - 1"
  have pos: "0 < ?n" using r by linarith
  let ?b = "bitlen ?n"
  from bitlen_bounds [OF pos] have lo: "2 ^ nat (?b - 1) \<le> ?n" and hi: "?n < 2 ^ nat ?b"
    by simp_all
  have b1: "1 \<le> ?b" using pos by (simp add: bitlen_alt_def)
  have "\<lceil>1 / x\<rceil> \<le> 2 ^ nat ?b" using hi by simp
  then have "1 / x \<le> real_of_int (2 ^ nat ?b)"
    by (meson ceiling_le_iff)
  then have up: "1 / x \<le> 2 ^ nat ?b" by simp
  have "2 ^ nat (?b - 1) < \<lceil>1 / x\<rceil>" using lo by simp
  then have "real_of_int (2 ^ nat (?b - 1)) < 1 / x"
    by (meson less_ceiling_iff)
  then have dn: "2 ^ nat (?b - 1) < 1 / x" by simp
  have A: "1 / 2 ^ nat ?b \<le> x"
    using up assms by (simp add: field_simps)
  have B: "x < 1 / 2 ^ nat (?b - 1)"
    using dn assms by (simp add: field_simps)
  have e: "ilog2 x = - ?b" using False by (simp add: ilog2_def)
  have "pow2 (- ?b) = 1 / 2 ^ nat ?b" using b1 by (simp add: pow2_def)
  moreover have "pow2 (- ?b + 1) = 1 / 2 ^ nat (?b - 1)"
  proof (cases "?b = 1")
    case True
    then show ?thesis by (simp add: pow2_def)
  next
    case False
    with b1 have "\<not> 0 \<le> - ?b + 1" by simp
    moreover have "nat (- (- ?b + 1)) = nat (?b - 1)" by simp
    ultimately show ?thesis by (simp add: pow2_def)
  qed
  ultimately show ?thesis
    using A B e by simp
qed

text \<open>The rounded number is within half a spacing of the number.\<close>

lemma round_half_even_error: "\<bar>of_int (round_half_even y) - y\<bar> \<le> 1 / 2"
proof -
  have "of_int \<lfloor>y\<rfloor> \<le> y" and "y < of_int \<lfloor>y\<rfloor> + 1"
    by linarith+
  then show ?thesis
    by (auto simp: round_half_even_def Let_def)
qed

lemma fl_nearest:
  assumes "x \<noteq> 0"
  shows "\<bar>fl x - x\<bar> \<le> pow2 (max (ilog2 \<bar>x\<bar>) (- 1022) - 52) / 2"
proof -
  define u where "u = pow2 (max (ilog2 \<bar>x\<bar>) (- 1022) - 52)"
  have pos: "0 < u"
    unfolding u_def by (rule pow2_pos)
  have "fl x = of_int (round_half_even (x / u)) * u"
    using assms by (simp add: fl_def Let_def u_def)
  then have "fl x - x = (of_int (round_half_even (x / u)) - x / u) * u"
    using pos by (simp add: field_simps)
  then have "\<bar>fl x - x\<bar> = \<bar>of_int (round_half_even (x / u)) - x / u\<bar> * u"
    using pos by (simp add: abs_mult)
  also have "\<dots> \<le> (1 / 2) * u"
    using round_half_even_error [of "x / u"] pos by (intro mult_right_mono) simp_all
  finally show ?thesis
    by (simp add: u_def)
qed

text \<open>The rounding on some numbers, against the values the interpreter prints.\<close>

lemma fl_four_tenths: "fl (4 / 10) = 3602879701896397 / 9007199254740992"
  by code_simp

lemma fl_third: "fl (1 / 3) = 6004799503160661 / 18014398509481984"
  by code_simp

lemma fl_tie_down: "fl 9007199254740993 = 9007199254740992"
  by code_simp

lemma fl_tie_up: "fl 9007199254740995 = 9007199254740996"
  by code_simp

lemma fl_boundary: "fl (fl (fl (1004 / 1000) - 1) * 100) = 225179981368525 / 562949953421312"
  by code_simp

section \<open>Sorting\<close>

lemma sort_reverse_sorted:
  "sorted_wrt (\<lambda>a b. key b \<le> key a) (sort_reverse key xs)"
proof -
  have "sorted (map key (sort_key key (rev xs)))"
    by (rule sorted_sort_key)
  then have "sorted_wrt (\<lambda>a b. key a \<le> key b) (sort_key key (rev xs))"
    by (simp add: sorted_map)
  then show ?thesis
    unfolding sort_reverse_def by (simp add: sorted_wrt_rev)
qed

lemma sort_reverse_stable:
  "filter (\<lambda>x. key x = k) (sort_reverse key xs) = filter (\<lambda>x. key x = k) xs"
  unfolding sort_reverse_def
  by (simp add: sort_key_stable flip: rev_filter)

lemma mset_sort_reverse: "mset (sort_reverse key xs) = mset xs"
  unfolding sort_reverse_def by simp

lemma platform_key_le:
  "platform_key a \<le> platform_key b \<longleftrightarrow>
     \<bar>o_deviation b\<bar> < \<bar>o_deviation a\<bar> \<or>
     (\<bar>o_deviation a\<bar> = \<bar>o_deviation b\<bar> \<and> \<bar>o_funding_rate b\<bar> \<le> \<bar>o_funding_rate a\<bar>)"
  unfolding platform_key_def less_eq_prod_def by auto

lemma platform_key_eq:
  "platform_key x = (- d, - f) \<longleftrightarrow> \<bar>o_deviation x\<bar> = d \<and> \<bar>o_funding_rate x\<bar> = f"
  unfolding platform_key_def by auto

lemma process_data_Inr:
  assumes "process_data uc cfg raw_data tm = Inr (main_table, arbitrage_list, platform_list)"
  obtains al pl where
    "process_loop uc cfg tm raw_data ([], [], []) = Inr (main_table, al, pl)"
    "arbitrage_list = sort_reverse arbitrage_key al"
    "platform_list = sort_key platform_key pl"
  using assms unfolding process_data_def
  by (auto split: sum.splits prod.splits)

lemma arbitrage_key_format:
  "arbitrage_key (e\<lparr>deviation := format_f 2 d\<rparr>) = \<bar>fl (of_int (round_half_even (d * 100)) / 100)\<bar>"
  by (simp add: arbitrage_key_def format_f_def float_of_fixed_def)

section \<open>The loop of process_data\<close>

lemma hang_empty [simp]: "hang ([], [], []) new = new" "hang acc ([], [], []) = acc"
  by (simp_all add: hang_def split: prod.splits)

lemma hang_assoc: "hang (hang a b) c = hang a (hang b c)"
  by (simp add: hang_def split: prod.splits)

lemma loop_body_hang:
  "loop_body uc cfg tm item acc =
     (case loop_body uc cfg tm item ([], [], []) of
        Inl e \<Rightarrow> Inl e
      | Inr new \<Rightarrow> Inr (hang acc new))"
  by (cases acc)
     (simp add: loop_body_def hang_def Let_def
           split: sym_field.splits sum.splits prod.splits option.splits)

lemma process_loop_hang:
  "process_loop uc cfg tm items acc =
     (case process_loop uc cfg tm items ([], [], []) of
        Inl e \<Rightarrow> Inl e
      | Inr new \<Rightarrow> Inr (hang acc new))"
proof (induction items arbitrary: acc)
  case Nil
  then show ?case by simp
next
  case (Cons item rest)
  show ?case
  proof (cases "loop_body uc cfg tm item ([], [], [])")
    case (Inl e)
    then show ?thesis
      using loop_body_hang [of uc cfg tm item acc] by simp
  next
    case (Inr new)
    then have step: "loop_body uc cfg tm item acc = Inr (hang acc new)"
      using loop_body_hang [of uc cfg tm item acc] by simp
    show ?thesis
      using Cons.IH [of "hang acc new"] Cons.IH [of new]
      by (simp add: step Inr hang_assoc split: sum.splits)
  qed
qed

lemma process_loop_append:
  "process_loop uc cfg tm (xs @ ys) acc =
     (case process_loop uc cfg tm xs acc of
        Inl e \<Rightarrow> Inl e
      | Inr acc' \<Rightarrow> process_loop uc cfg tm ys acc')"
  by (induction xs arbitrary: acc) (simp_all split: sum.splits)


lemma loop_body_skip:
  assumes "symbol t = Symbol s" "parse_prices t = Inl e" "e = KeyError \<or> e = ValueError"
  shows "loop_body uc cfg tm t acc = Inr acc"
  using assms by (cases acc) (auto simp: loop_body_def Let_def)



text \<open>
  A ticker whose mark price, index price or funding rate is missing or is a string that is
  no numeral is passed over: the batch gives what it gives without that ticker.
\<close>

lemma malformed_price_skipped:
  assumes "symbol t = Symbol s" and "parse_prices t = Inl e" and "e = KeyError \<or> e = ValueError"
  shows "process_data uc cfg (before @ t # after) tm = process_data uc cfg (before @ after) tm"
  using loop_body_skip [OF assms]
  by (simp add: process_data_def process_loop_append split: sum.splits)

text \<open>
  The function returns on every snapshot whose tickers have a symbol, no JSON null in a
  numeric field and no mark price that parses to 0, when the display table has its
  wildcard entry.
\<close>

lemma loop_body_returns:
  assumes "symbol t = Symbol s" and "markPrice t \<noteq> Null_value"
    and "py_float (markPrice t) \<noteq> Inr 0"
    and "indexPrice t \<noteq> Null_value" and "fundingRate t \<noteq> Null_value"
    and "DISPLAY_CONFIG cfg ''*'' = Some dflt"
  shows "\<exists>new. loop_body uc cfg tm t ([], [], []) = Inr new"
  using assms
  by (cases "markPrice t"; cases "indexPrice t"; cases "fundingRate t")
     (simp_all add: loop_body_def parse_prices_def py_float_def Let_def)

lemma process_data_returns:
  assumes "DISPLAY_CONFIG cfg ''*'' = Some dflt"
    and "\<forall>t\<in>set raw_data. (\<exists>s. symbol t = Symbol s)
           \<and> markPrice t \<noteq> Null_value \<and> py_float (markPrice t) \<noteq> Inr 0
           \<and> indexPrice t \<noteq> Null_value \<and> fundingRate t \<noteq> Null_value"
  shows "\<exists>tables. process_data uc cfg raw_data tm = Inr tables"
proof -
  have "\<exists>new. process_loop uc cfg tm raw_data ([], [], []) = Inr new"
    using assms(2)
  proof (induction raw_data)
    case Nil
    then show ?case by simp
  next
    case (Cons t rest)
    then obtain s where "symbol t = Symbol s"
      by auto
    with Cons.prems assms(1) obtain new where
      body: "loop_body uc cfg tm t ([], [], []) = Inr new"
      using loop_body_returns [where t = t and s = s and cfg = cfg and dflt = dflt
          and uc = uc and tm = tm] by auto
    from Cons obtain new' where rest: "process_loop uc cfg tm rest ([], [], []) = Inr new'"
      by auto
    have "process_loop uc cfg tm rest new = Inr (hang new new')"
      using process_loop_hang [of uc cfg tm rest new] by (simp add: rest)
    then show ?case
      by (cases "hang new new'") (simp add: body)
  qed
  then show ?thesis
    by (auto simp: process_data_def split: prod.splits)
qed

text \<open>The example snapshot of two tickers, run against the example registry.\<close>

lemma example_snapshot:
  "process_data id source_config [foo_ticker, bar_ticker] example_token_map
     = Inr ([], [bar_entry, foo_entry], [bar_at_z, foo_at_x, foo_at_y])"
  by code_simp

section \<open>Detection\<close>



text \<open>
  Claim C2. A ticker whose mark price is 0 should be rejected without a division fault.
  In the source the division is outside the try block and ZeroDivisionError is not among the
  exceptions caught: the batch below, a well-formed ticker followed by one with mark price
  0, raises ZeroDivisionError and returns no candidate at all.
\<close>

theorem zero_mark_aborts_batch:
  "process_data id source_config [foo_ticker, zero_mark_ticker] Map.empty = Inl ZeroDivisionError"
  by code_simp

text \<open>
  Claim C5. A ticker with a missing required field should be skipped silently. In the
  source the symbol is read before the try block: the batch below, a well-formed ticker
  followed by one without a symbol, raises KeyError and returns no candidate at all.
\<close>

theorem missing_symbol_aborts_batch:
  "process_data id source_config [foo_ticker, no_symbol_ticker] Map.empty = Inl KeyError"
  by code_simp

text \<open>
  Claim C4. As amended: the candidate list is sorted by descending magnitude of the
  deviation as formatted with two decimals, which is the key the source sorts by, and
  the candidates whose formatted magnitudes are equal keep the order in which the loop
  produced them.
\<close>

theorem arbitrage_list_order:
  assumes "process_data uc cfg raw_data tm = Inr (main_table, arbitrage_list, platform_list)"
  shows "sorted_wrt (\<lambda>a b. \<bar>float_of_fixed (deviation b)\<bar> \<le> \<bar>float_of_fixed (deviation a)\<bar>)
           arbitrage_list
       \<and> (\<exists>al pl. process_loop uc cfg tm raw_data ([], [], []) = Inr (main_table, al, pl)
            \<and> mset arbitrage_list = mset al
            \<and> (\<forall>k. filter (\<lambda>x. \<bar>float_of_fixed (deviation x)\<bar> = k) arbitrage_list
                   = filter (\<lambda>x. \<bar>float_of_fixed (deviation x)\<bar> = k) al))"
proof -
  from assms obtain al pl where
    loop: "process_loop uc cfg tm raw_data ([], [], []) = Inr (main_table, al, pl)" and
    al: "arbitrage_list = sort_reverse arbitrage_key al"
    by (rule process_data_Inr)
  have "sorted_wrt (\<lambda>a b. arbitrage_key b \<le> arbitrage_key a) arbitrage_list"
    unfolding al by (rule sort_reverse_sorted)
  moreover have "filter (\<lambda>x. arbitrage_key x = k) arbitrage_list
      = filter (\<lambda>x. arbitrage_key x = k) al" for k
    unfolding al by (rule sort_reverse_stable)
  moreover have "mset arbitrage_list = mset al"
    unfolding al by (rule mset_sort_reverse)
  ultimately show ?thesis
    using loop unfolding arbitrage_key_def by blast
qed

theorem arbitrage_list_order_witness:
  "process_data id source_config [foo_ticker, bar_ticker] example_token_map
     = Inr ([], [bar_entry, foo_entry], [bar_at_z, foo_at_x, foo_at_y])
   \<and> sorted_wrt (\<lambda>a b. \<bar>float_of_fixed (deviation b)\<bar> \<le> \<bar>float_of_fixed (deviation a)\<bar>)
        [bar_entry, foo_entry]"
proof -
  note h = example_snapshot
  from arbitrage_list_order [OF h] h show ?thesis
    by blast
qed

text \<open>
  Claim C4 as stated, with the exact deviation as the sort key, fails: the two tickers below
  both show a deviation of 0.50 per cent and stay in their input order, the one with the
  smaller exact deviation first.
\<close>

theorem rounded_ties_not_ordered:
  "process_data id source_config [near_ticker_a, near_ticker_b] Map.empty
     = Inr ([], [near_entry_a, near_entry_b], [])
   \<and> markPrice near_ticker_a = Numeric 1024 \<and> indexPrice near_ticker_a = Numeric 1029.125
   \<and> markPrice near_ticker_b = Numeric 1024 \<and> indexPrice near_ticker_b = Numeric 1029.15625
   \<and> \<bar>(1029.125 / 1024 - 1) * 100 :: real\<bar> < \<bar>(1029.15625 / 1024 - 1) * 100\<bar>"
  by code_simp

section \<open>Matching and ranking\<close>

text \<open>
  Claim C7. The opportunity list is ordered by descending magnitude of the deviation,
  then by descending magnitude of the funding rate, and opportunities equal on both keys
  keep the order in which the loop produced them.
\<close>

theorem platform_list_ranking:
  assumes "process_data uc cfg raw_data tm = Inr (main_table, arbitrage_list, platform_list)"
  shows "sorted_wrt (\<lambda>a b. \<bar>o_deviation b\<bar> < \<bar>o_deviation a\<bar> \<or>
            (\<bar>o_deviation a\<bar> = \<bar>o_deviation b\<bar> \<and>
             \<bar>o_funding_rate b\<bar> \<le> \<bar>o_funding_rate a\<bar>)) platform_list
       \<and> (\<exists>al pl. process_loop uc cfg tm raw_data ([], [], []) = Inr (main_table, al, pl)
            \<and> mset platform_list = mset pl
            \<and> (\<forall>d f. filter (\<lambda>x. \<bar>o_deviation x\<bar> = d \<and> \<bar>o_funding_rate x\<bar> = f) platform_list
                     = filter (\<lambda>x. \<bar>o_deviation x\<bar> = d \<and> \<bar>o_funding_rate x\<bar> = f) pl))"
proof -
  from assms obtain al pl where
    loop: "process_loop uc cfg tm raw_data ([], [], []) = Inr (main_table, al, pl)" and
    pl: "platform_list = sort_key platform_key pl"
    by (rule process_data_Inr)
  have "sorted (map platform_key platform_list)"
    unfolding pl by (rule sorted_sort_key)
  then have ranked: "sorted_wrt (\<lambda>a b. platform_key a \<le> platform_key b) platform_list"
    by (simp add: sorted_map)
  have stable: "filter (\<lambda>x. \<bar>o_deviation x\<bar> = d \<and> \<bar>o_funding_rate x\<bar> = f) platform_list
      = filter (\<lambda>x. \<bar>o_deviation x\<bar> = d \<and> \<bar>o_funding_rate x\<bar> = f) pl" for d f
    using sort_key_stable [of platform_key "(- d, - f)" pl]
    unfolding pl platform_key_eq .
  have "mset platform_list = mset pl"
    unfolding pl by simp
  with ranked stable loop show ?thesis
    unfolding platform_key_le by blast
qed

theorem platform_list_ranking_witness:
  "process_data id source_config [foo_ticker, bar_ticker] example_token_map
     = Inr ([], [bar_entry, foo_entry], [bar_at_z, foo_at_x, foo_at_y])
   \<and> sorted_wrt (\<lambda>a b. \<bar>o_deviation b\<bar> < \<bar>o_deviation a\<bar> \<or>
            (\<bar>o_deviation a\<bar> = \<bar>o_deviation b\<bar> \<and>
             \<bar>o_funding_rate b\<bar> \<le> \<bar>o_funding_rate a\<bar>)) [bar_at_z, foo_at_x, foo_at_y]"
proof -
  note h = example_snapshot
  from platform_list_ranking [OF h] h show ?thesis
    by blast
qed

text \<open>
  Claim C3. An opportunity whose type tag is the contract tag gives an alert exactly when
  the magnitude of its deviation is at least the contract threshold; an opportunity with any
  other type tag, a lending venue among them, gives an alert exactly when the magnitude is
  at least the lending threshold; and each opportunity of the list is decided on its own.
\<close>

theorem critical_alerts_threshold:
  "(o_type item = contract_tag \<longrightarrow>
      (critical_alerts cfg [item] = [alert_of item]
         \<longleftrightarrow> ARBITRAGE_THRESHOLD_CONTRACT cfg \<le> \<bar>o_deviation item\<bar>) \<and>
      (critical_alerts cfg [item] = []
         \<longleftrightarrow> \<bar>o_deviation item\<bar> < ARBITRAGE_THRESHOLD_CONTRACT cfg))
   \<and> (o_type item \<noteq> contract_tag \<longrightarrow>
      (critical_alerts cfg [item] = [alert_of item]
         \<longleftrightarrow> ARBITRAGE_THRESHOLD_LENDING cfg \<le> \<bar>o_deviation item\<bar>) \<and>
      (critical_alerts cfg [item] = []
         \<longleftrightarrow> \<bar>o_deviation item\<bar> < ARBITRAGE_THRESHOLD_LENDING cfg))
   \<and> critical_alerts cfg (before @ item # after)
       = critical_alerts cfg before @ critical_alerts cfg [item] @ critical_alerts cfg after"
proof -
  have "critical_alerts cfg (xs @ ys) = critical_alerts cfg xs @ critical_alerts cfg ys" for xs ys
    by (induction xs) (simp_all add: Let_def)
  from this [of before "item # after"] this [of "[item]" after]
  have "critical_alerts cfg (before @ item # after)
       = critical_alerts cfg before @ critical_alerts cfg [item] @ critical_alerts cfg after"
    by simp
  then show ?thesis
    by (auto simp: Let_def)
qed

theorem critical_alerts_threshold_witness:
  "o_type foo_at_x = contract_tag \<and> o_type foo_at_y \<noteq> contract_tag
   \<and> ARBITRAGE_THRESHOLD_CONTRACT source_config \<le> \<bar>o_deviation foo_at_x\<bar>
   \<and> \<bar>o_deviation foo_at_y\<bar> < ARBITRAGE_THRESHOLD_LENDING source_config
   \<and> critical_alerts source_config [foo_at_x] = [alert_of foo_at_x]
   \<and> critical_alerts source_config [foo_at_y] = []"
proof -
  have h1: "o_type foo_at_x = contract_tag"
    by (simp add: foo_at_x_def)
  have h2: "o_type foo_at_y \<noteq> contract_tag"
    by (simp add: foo_at_y_def contract_tag_def)
  have h3: "ARBITRAGE_THRESHOLD_CONTRACT source_config \<le> \<bar>o_deviation foo_at_x\<bar>"
    by (simp add: source_config_def foo_at_x_def)
  have h4: "\<bar>o_deviation foo_at_y\<bar> < ARBITRAGE_THRESHOLD_LENDING source_config"
    by (simp add: source_config_def foo_at_y_def)
  from critical_alerts_threshold [of foo_at_x source_config "[]" "[]"]
    critical_alerts_threshold [of foo_at_y source_config "[]" "[]"]
    h1 h2 h3 h4
  show ?thesis by blast
qed

section \<open>The alert records\<close>

lemma update_token_keyed:
  assumes "\<forall>p\<in>set d. r_token (snd p) = fst p" and "r_token v = k"
  shows "\<forall>p\<in>set (AList.update k v d). r_token (snd p) = fst p"
  using assms by (induction d) auto

lemma fold_update_keys:
  "fst ` set (fold (\<lambda>r d. AList.update (r_token r) r d) rs d0)
     = fst ` set d0 \<union> r_token ` set rs"
proof (induction rs arbitrary: d0)
  case Nil
  then show ?case by simp
next
  case (Cons r rs)
  have "fst ` set (AList.update (r_token r) r d0) = {r_token r} \<union> fst ` set d0"
    by (rule AList.dom_update)
  with Cons.IH [of "AList.update (r_token r) r d0"] show ?case
    by auto
qed

lemma fold_update_distinct:
  "distinct (map fst d0) \<Longrightarrow>
   distinct (map fst (fold (\<lambda>r d. AList.update (r_token r) r d) rs d0))"
  by (induction rs arbitrary: d0) (simp_all add: AList.distinct_update)

lemma fold_update_keyed:
  "\<forall>p\<in>set d0. r_token (snd p) = fst p \<Longrightarrow>
   \<forall>p\<in>set (fold (\<lambda>r d. AList.update (r_token r) r d) rs d0). r_token (snd p) = fst p"
proof (induction rs arbitrary: d0)
  case Nil
  then show ?case by simp
next
  case (Cons r rs)
  have "\<forall>p\<in>set (AList.update (r_token r) r d0). r_token (snd p) = fst p"
    using Cons.prems by (rule update_token_keyed) simp
  from Cons.IH [OF this] show ?case
    by simp
qed

lemma dict_of_records_keys: "fst ` set (dict_of_records rs) = r_token ` set rs"
  unfolding dict_of_records_def using fold_update_keys [of rs "[]"] by simp

lemma dict_of_records_distinct: "distinct (map fst (dict_of_records rs))"
  unfolding dict_of_records_def by (rule fold_update_distinct) simp

lemma dict_of_records_keyed: "\<forall>p\<in>set (dict_of_records rs). r_token (snd p) = fst p"
  unfolding dict_of_records_def by (rule fold_update_keyed) simp

lemma alert_loop_keys:
  "fst ` set (fst (alert_loop now L (d, n))) = fst ` set d \<union> a_token ` set L"
proof (induction L arbitrary: d n)
  case Nil
  then show ?case by simp
next
  case (Cons a rest)
  show ?case
  proof (cases "a_token a \<in> fst ` set d")
    case True
    then show ?thesis
      using Cons.IH [of d n] by auto
  next
    case False
    then show ?thesis
      using Cons.IH [of "AList.update (a_token a)
          \<lparr>r_token = a_token a, r_timestamp = now, r_message = a_message a\<rparr> d"]
      by (simp add: Let_def AList.dom_update)
  qed
qed

lemma alert_loop_distinct_keys:
  "distinct (map fst d) \<Longrightarrow> distinct (map fst (fst (alert_loop now L (d, n))))"
  by (induction L arbitrary: d n) (simp_all add: Let_def AList.distinct_update)

lemma alert_loop_keyed:
  "\<forall>p\<in>set d. r_token (snd p) = fst p \<Longrightarrow>
   \<forall>p\<in>set (fst (alert_loop now L (d, n))). r_token (snd p) = fst p"
proof (induction L arbitrary: d n)
  case Nil
  then show ?case by simp
next
  case (Cons a rest)
  define e where "e = \<lparr>r_token = a_token a, r_timestamp = now, r_message = a_message a\<rparr>"
  have "\<forall>p\<in>set (AList.update (a_token a) e d). r_token (snd p) = fst p"
    using Cons.prems by (rule update_token_keyed) (simp add: e_def)
  from Cons.IH [OF this] Cons.IH [OF Cons.prems] show ?case
    by (simp add: Let_def e_def)
qed

lemma alert_loop_new:
  "\<exists>created. snd (alert_loop now L (d, n)) = n @ created
      \<and> distinct (map r_token created)
      \<and> r_token ` set created = a_token ` set L - fst ` set d"
proof (induction L arbitrary: d n)
  case Nil
  then show ?case by simp
next
  case (Cons a rest)
  show ?case
  proof (cases "a_token a \<in> fst ` set d")
    case True
    from Cons.IH [of d n] obtain created where
      c1: "snd (alert_loop now rest (d, n)) = n @ created" and
      c2: "distinct (map r_token created)" and
      c3: "r_token ` set created = a_token ` set rest - fst ` set d"
      by blast
    have "snd (alert_loop now (a # rest) (d, n)) = n @ created"
      using True c1 by simp
    moreover have "r_token ` set created = a_token ` set (a # rest) - fst ` set d"
      using c3 True by auto
    ultimately show ?thesis
      using c2 by blast
  next
    case False
    define e where "e = \<lparr>r_token = a_token a, r_timestamp = now, r_message = a_message a\<rparr>"
    define d1 where "d1 = AList.update (a_token a) e d"
    from Cons.IH [of d1 "n @ [e]"] obtain created where
      c1: "snd (alert_loop now rest (d1, n @ [e])) = (n @ [e]) @ created" and
      c2: "distinct (map r_token created)" and
      c3: "r_token ` set created = a_token ` set rest - fst ` set d1"
      by blast
    have keys1: "fst ` set d1 = insert (a_token a) (fst ` set d)"
      unfolding d1_def by (simp add: AList.dom_update)
    have tok: "r_token e = a_token a"
      by (simp add: e_def)
    have "snd (alert_loop now (a # rest) (d, n)) = n @ (e # created)"
      using False c1 by (simp add: Let_def e_def d1_def)
    moreover have "distinct (map r_token (e # created))"
      using c2 c3 keys1 tok by auto
    moreover have "r_token ` set (e # created) = a_token ` set (a # rest) - fst ` set d"
      using c3 keys1 tok False by auto
    ultimately show ?thesis
      by blast
  qed
qed

lemma alert_loop_known:
  "a_token ` set L \<subseteq> fst ` set d \<Longrightarrow> alert_loop now L (d, n) = (d, n)"
  by (induction L) simp_all

lemma alert_loop_clock:
  assumes "map fst d = map fst d'" and "map r_token n = map r_token n'"
    and "alert_loop now L (d, n) = (e, m)" and "alert_loop now' L (d', n') = (e', m')"
  shows "map fst e = map fst e' \<and> map r_token m = map r_token m'"
  using assms
proof (induction L arbitrary: d d' n n')
  case Nil
  then show ?case by simp
next
  case (Cons a rest)
  have same: "fst ` set d = fst ` set d'"
    using Cons.prems(1) by (metis set_map)
  show ?case
  proof (cases "a_token a \<in> fst ` set d")
    case True
    then have "a_token a \<in> fst ` set d'"
      using same by simp
    with True Cons.prems show ?thesis
      using Cons.IH [of d d' n n'] by simp
  next
    case False
    then have False': "a_token a \<notin> fst ` set d'"
      using same by simp
    define r where "r = \<lparr>r_token = a_token a, r_timestamp = now, r_message = a_message a\<rparr>"
    define r' where "r' = \<lparr>r_token = a_token a, r_timestamp = now', r_message = a_message a\<rparr>"
    have one: "alert_loop now rest (AList.update (a_token a) r d, n @ [r]) = (e, m)"
      using False Cons.prems(3) by (simp add: Let_def r_def)
    have two: "alert_loop now' rest (AList.update (a_token a) r' d', n' @ [r']) = (e', m')"
      using False' Cons.prems(4) by (simp add: Let_def r'_def)
    have keys: "map fst (AList.update (a_token a) r d) = map fst (AList.update (a_token a) r' d')"
      using Cons.prems(1) same by (simp add: AList.update_keys)
    have news: "map r_token (n @ [r]) = map r_token (n' @ [r'])"
      using Cons.prems(2) by (simp add: r_def r'_def)
    from Cons.IH [OF keys news one two] show ?thesis .
  qed
qed

lemma count_distinct_key:
  "distinct (map f xs) \<Longrightarrow>
   length (filter (\<lambda>x. f x = t) xs) = (if t \<in> f ` set xs then 1 else 0)"
  by (induction xs) auto

lemma filter_new_alerts_fst:
  "fst (filter_new_alerts cfg now L w)
     = snd (alert_loop now L (dict_of_records (load_arb_records w), []))"
  by (simp add: filter_new_alerts_def split: prod.splits)

lemma filter_new_alerts_snd:
  "snd (filter_new_alerts cfg now L w)
     = (if fst (filter_new_alerts cfg now L w) \<noteq> []
        then save_arb_records cfg
               (dict_values (fst (alert_loop now L (dict_of_records (load_arb_records w), [])))) w
        else w)"
  by (simp add: filter_new_alerts_def split: prod.splits)

lemma filter_new_alerts_empty_iff:
  "fst (filter_new_alerts cfg now L w) = []
     \<longleftrightarrow> a_token ` set L \<subseteq> r_token ` set (load_arb_records w)"
proof -
  obtain created where
    c1: "snd (alert_loop now L (dict_of_records (load_arb_records w), [])) = [] @ created" and
    c3: "r_token ` set created
          = a_token ` set L - fst ` set (dict_of_records (load_arb_records w))"
    using alert_loop_new [of now L "dict_of_records (load_arb_records w)" "[]"] by blast
  have "created = [] \<longleftrightarrow> r_token ` set created = {}"
    by simp
  then show ?thesis
    unfolding filter_new_alerts_fst c1 c3 dict_of_records_keys by auto
qed

lemma save_file:
  "arb_file (save_arb_records cfg records w)
     = (if lower (UPDATE_JSON cfg) = ''yes'' \<and> disk_ok w then Stored records else arb_file w)"
  by (simp add: save_arb_records_def Let_def)

lemma filter_file_unwritten:
  "lower (UPDATE_JSON cfg) \<noteq> ''yes'' \<or> \<not> disk_ok w \<Longrightarrow>
   arb_file (snd (filter_new_alerts cfg now L w)) = arb_file w"
  by (auto simp: filter_new_alerts_snd save_file)

lemma run_calls_file:
  "lower (UPDATE_JSON cfg) \<noteq> ''yes'' \<Longrightarrow> arb_file (run_calls cfg calls w) = arb_file w"
proof (induction calls arbitrary: w)
  case Nil
  then show ?case by simp
next
  case (Cons c calls)
  then show ?case
    by (cases c) (simp_all add: filter_file_unwritten save_file)
qed

lemma second_call_empty:
  assumes "lower (UPDATE_JSON cfg) = ''yes''" and "disk_ok w"
  shows "fst (filter_new_alerts cfg now' L (snd (filter_new_alerts cfg now L w))) = []"
proof (cases "fst (filter_new_alerts cfg now L w) = []")
  case True
  then have "snd (filter_new_alerts cfg now L w) = w"
    by (simp add: filter_new_alerts_snd)
  with True show ?thesis
    by (simp add: filter_new_alerts_empty_iff)
next
  case False
  define existing where
    "existing = fst (alert_loop now L (dict_of_records (load_arb_records w), []))"
  have "arb_file (snd (filter_new_alerts cfg now L w)) = Stored (dict_values existing)"
    using False assms by (simp add: filter_new_alerts_snd save_file existing_def)
  then have loaded: "load_arb_records (snd (filter_new_alerts cfg now L w)) = dict_values existing"
    by (simp add: load_arb_records_def)
  have keyed: "\<forall>p\<in>set existing. r_token (snd p) = fst p"
    unfolding existing_def by (rule alert_loop_keyed) (rule dict_of_records_keyed)
  then have "r_token ` set (dict_values existing) = fst ` set existing"
    by (force simp: dict_values_def)
  moreover have "a_token ` set L \<subseteq> fst ` set existing"
    unfolding existing_def alert_loop_keys by simp
  ultimately show ?thesis
    by (simp add: filter_new_alerts_empty_iff loaded)
qed

lemma second_call_repeats:
  assumes "lower (UPDATE_JSON cfg) \<noteq> ''yes'' \<or> \<not> disk_ok w"
  shows "map r_token (fst (filter_new_alerts cfg now' L (snd (filter_new_alerts cfg now L w))))
       = map r_token (fst (filter_new_alerts cfg now L w))"
proof -
  have "arb_file (snd (filter_new_alerts cfg now L w)) = arb_file w"
    using assms by (rule filter_file_unwritten)
  then have same: "load_arb_records (snd (filter_new_alerts cfg now L w)) = load_arb_records w"
    by (simp add: load_arb_records_def)
  obtain e m where one: "alert_loop now L (dict_of_records (load_arb_records w), []) = (e, m)"
    by (cases "alert_loop now L (dict_of_records (load_arb_records w), [])")
  obtain e' m' where two: "alert_loop now' L (dict_of_records (load_arb_records w), []) = (e', m')"
    by (cases "alert_loop now' L (dict_of_records (load_arb_records w), [])")
  have "map r_token m = map r_token m'"
    using alert_loop_clock [OF refl refl one two] by simp
  then show ?thesis
    by (simp add: filter_new_alerts_fst same one two)
qed

text \<open>
  Claim C8. After one call of filter_new_alerts the returned records have pairwise
  different tokens, the dictionary has pairwise different keys and each of its records is
  filed under its own token; a token has exactly one new record when it occurs in the alert
  list and is not in the loaded records, and none otherwise; and what is written to the file,
  when it is written, is the list of the values of that dictionary.
\<close>

theorem one_record_per_token:
  assumes "alert_loop now L (dict_of_records (load_arb_records w), []) = (existing, new_alerts)"
  shows "fst (filter_new_alerts cfg now L w) = new_alerts
       \<and> distinct (map r_token new_alerts)
       \<and> distinct (map fst existing)
       \<and> map r_token (dict_values existing) = map fst existing
       \<and> (\<forall>t. length (filter (\<lambda>r. r_token r = t) new_alerts)
              = (if t \<in> a_token ` set L \<and> t \<notin> r_token ` set (load_arb_records w)
                 then 1 else 0))
       \<and> (new_alerts \<noteq> [] \<and> lower (UPDATE_JSON cfg) = ''yes'' \<and> disk_ok w \<longrightarrow>
            arb_file (snd (filter_new_alerts cfg now L w)) = Stored (dict_values existing))"
proof -
  have ex: "existing = fst (alert_loop now L (dict_of_records (load_arb_records w), []))"
    and nw: "new_alerts = snd (alert_loop now L (dict_of_records (load_arb_records w), []))"
    using assms by simp_all
  have r1: "fst (filter_new_alerts cfg now L w) = new_alerts"
    by (simp add: filter_new_alerts_fst nw)
  obtain created where
    c1: "new_alerts = [] @ created" and
    c2: "distinct (map r_token created)" and
    c3: "r_token ` set created
          = a_token ` set L - fst ` set (dict_of_records (load_arb_records w))"
    using alert_loop_new [of now L "dict_of_records (load_arb_records w)" "[]"]
    unfolding nw by blast
  have r2: "distinct (map r_token new_alerts)"
    using c1 c2 by simp
  have r3: "distinct (map fst existing)"
    unfolding ex by (rule alert_loop_distinct_keys) (rule dict_of_records_distinct)
  have "\<forall>p\<in>set existing. r_token (snd p) = fst p"
    unfolding ex by (rule alert_loop_keyed) (rule dict_of_records_keyed)
  then have r4: "map r_token (dict_values existing) = map fst existing"
    by (simp add: dict_values_def)
  have tokens: "r_token ` set new_alerts = a_token ` set L - r_token ` set (load_arb_records w)"
    using c1 c3 by (simp add: dict_of_records_keys)
  have r5: "length (filter (\<lambda>r. r_token r = t) new_alerts)
              = (if t \<in> a_token ` set L \<and> t \<notin> r_token ` set (load_arb_records w)
                 then 1 else 0)" for t
    using count_distinct_key [OF r2, of t] unfolding tokens by simp
  have r6: "new_alerts \<noteq> [] \<and> lower (UPDATE_JSON cfg) = ''yes'' \<and> disk_ok w \<longrightarrow>
            arb_file (snd (filter_new_alerts cfg now L w)) = Stored (dict_values existing)"
    by (simp add: filter_new_alerts_snd r1 save_file ex)
  from r1 r2 r3 r4 r5 r6 show ?thesis
    by blast
qed

theorem one_record_per_token_witness:
  "alert_loop 100 [foo_alert_x, foo_alert_y] (dict_of_records (load_arb_records fresh_world), [])
     = ([(''FOO'', foo_record)], [foo_record])
   \<and> fst (filter_new_alerts persisting_config 100 [foo_alert_x, foo_alert_y] fresh_world)
       = [foo_record]
   \<and> arb_file (snd (filter_new_alerts persisting_config 100 [foo_alert_x, foo_alert_y] fresh_world))
       = Stored (dict_values [(''FOO'', foo_record)])"
proof -
  have h: "alert_loop 100 [foo_alert_x, foo_alert_y]
      (dict_of_records (load_arb_records fresh_world), []) = ([(''FOO'', foo_record)], [foo_record])"
    by code_simp
  have e: "lower (UPDATE_JSON persisting_config) = ''yes''"
    by code_simp
  have d: "disk_ok fresh_world"
    by (simp add: fresh_world_def)
  from one_record_per_token [OF h, of persisting_config] h e d show ?thesis
    by blast
qed

text \<open>
  Claim C10. A call of filter_new_alerts that returns no record leaves the environment as
  it was: the file is not written and save_arb_records is not called, whatever UPDATE_JSON
  says. This happens exactly when every token of the alert list is in the loaded records; a
  call that returns a record calls save_arb_records once.
\<close>

theorem no_new_records_no_write:
  "(fst (filter_new_alerts cfg now L w) = [] \<longrightarrow> snd (filter_new_alerts cfg now L w) = w)
   \<and> (fst (filter_new_alerts cfg now L w) = []
        \<longleftrightarrow> a_token ` set L \<subseteq> r_token ` set (load_arb_records w))
   \<and> (fst (filter_new_alerts cfg now L w) \<noteq> []
        \<longrightarrow> save_calls (snd (filter_new_alerts cfg now L w)) = Suc (save_calls w))"
  using filter_new_alerts_empty_iff [of cfg now L w]
  by (simp add: filter_new_alerts_snd save_arb_records_def Let_def)

theorem no_new_records_no_write_witness:
  "fst (filter_new_alerts persisting_config 105 [foo_alert_x, foo_alert_y] used_world) = []
   \<and> snd (filter_new_alerts persisting_config 105 [foo_alert_x, foo_alert_y] used_world)
       = used_world"
proof -
  have h: "fst (filter_new_alerts persisting_config 105 [foo_alert_x, foo_alert_y] used_world) = []"
    by code_simp
  with no_new_records_no_write [of persisting_config 105 "[foo_alert_x, foo_alert_y]" used_world]
  show ?thesis by blast
qed

text \<open>
  Claim C9. As amended: when UPDATE_JSON is not yes, save_arb_records leaves the record
  file unchanged, so after any sequence of calls of filter_new_alerts and save_arb_records
  a load returns what a load returned before the sequence; it returns the empty list when
  there was no file.
\<close>

theorem disabled_store_is_unchanged:
  assumes "lower (UPDATE_JSON cfg) \<noteq> ''yes''"
  shows "arb_file (save_arb_records cfg records w) = arb_file w
       \<and> arb_file (run_calls cfg calls w) = arb_file w
       \<and> load_arb_records (run_calls cfg calls w) = load_arb_records w
       \<and> (arb_file w = No_file \<longrightarrow> load_arb_records (run_calls cfg calls w) = [])"
  using assms run_calls_file [OF assms, of calls w]
  by (simp add: save_file load_arb_records_def)

theorem disabled_store_is_unchanged_witness:
  "lower (UPDATE_JSON source_config) \<noteq> ''yes''
   \<and> load_arb_records
        (run_calls source_config [Filter_new 100 [foo_alert_x], Save [foo_record]] fresh_world) = []"
proof -
  have h: "lower (UPDATE_JSON source_config) \<noteq> ''yes''"
    by code_simp
  have "arb_file fresh_world = No_file"
    by (simp add: fresh_world_def)
  with disabled_store_is_unchanged [OF h, of "[]" fresh_world
      "[Filter_new 100 [foo_alert_x], Save [foo_record]]"] h
  show ?thesis by blast
qed

text \<open>
  Claim C9 as stated, with an empty result of the load in every case, fails when the file
  holds records from the start.
\<close>

theorem disabled_store_not_empty:
  "lower (UPDATE_JSON source_config) \<noteq> ''yes''
   \<and> load_arb_records
        (run_calls source_config [Filter_new 100 [foo_alert_x], Save []] used_world) \<noteq> []"
  by code_simp

text \<open>
  Claim C1. As amended: for a non-empty alert list none of whose tokens is recorded, the
  first call of filter_new_alerts returns a non-empty list; when UPDATE_JSON is yes and the
  write succeeds the second call with the same list returns the empty list; when UPDATE_JSON
  is not yes or the write fails, the second call returns records for the same tokens again,
  since the dictionary of the first call is not kept.
\<close>

theorem repeated_filter_new_alerts:
  assumes "L \<noteq> []" and "\<forall>a\<in>set L. a_token a \<notin> r_token ` set (load_arb_records w)"
  shows "fst (filter_new_alerts cfg now L w) \<noteq> []
       \<and> (lower (UPDATE_JSON cfg) = ''yes'' \<and> disk_ok w \<longrightarrow>
            fst (filter_new_alerts cfg now' L (snd (filter_new_alerts cfg now L w))) = [])
       \<and> (lower (UPDATE_JSON cfg) \<noteq> ''yes'' \<or> \<not> disk_ok w \<longrightarrow>
            map r_token (fst (filter_new_alerts cfg now' L (snd (filter_new_alerts cfg now L w))))
              = map r_token (fst (filter_new_alerts cfg now L w)))"
proof -
  from assms obtain a where "a \<in> set L" and "a_token a \<notin> r_token ` set (load_arb_records w)"
    by (cases L) auto
  then have "\<not> a_token ` set L \<subseteq> r_token ` set (load_arb_records w)"
    by blast
  then have "fst (filter_new_alerts cfg now L w) \<noteq> []"
    by (simp add: filter_new_alerts_empty_iff)
  then show ?thesis
    using second_call_empty [of cfg w now' L now] second_call_repeats [of cfg w now' L now]
    by blast
qed

theorem repeated_filter_new_alerts_witness:
  "[foo_alert_x] \<noteq> []
   \<and> a_token foo_alert_x \<notin> r_token ` set (load_arb_records fresh_world)
   \<and> lower (UPDATE_JSON persisting_config) = ''yes'' \<and> disk_ok fresh_world
   \<and> lower (UPDATE_JSON source_config) \<noteq> ''yes''
   \<and> fst (filter_new_alerts persisting_config 100 [foo_alert_x] fresh_world) \<noteq> []
   \<and> fst (filter_new_alerts persisting_config 105 [foo_alert_x]
        (snd (filter_new_alerts persisting_config 100 [foo_alert_x] fresh_world))) = []
   \<and> map r_token (fst (filter_new_alerts source_config 105 [foo_alert_x]
        (snd (filter_new_alerts source_config 100 [foo_alert_x] fresh_world))))
      = map r_token (fst (filter_new_alerts source_config 100 [foo_alert_x] fresh_world))"
proof -
  have h1: "[foo_alert_x] \<noteq> []"
    by simp
  have h2: "\<forall>a\<in>set [foo_alert_x]. a_token a \<notin> r_token ` set (load_arb_records fresh_world)"
    by (simp add: load_arb_records_def fresh_world_def)
  have h3: "lower (UPDATE_JSON persisting_config) = ''yes''"
    by code_simp
  have h4: "disk_ok fresh_world"
    by (simp add: fresh_world_def)
  have h5: "lower (UPDATE_JSON source_config) \<noteq> ''yes''"
    by code_simp
  have h2': "a_token foo_alert_x \<notin> r_token ` set (load_arb_records fresh_world)"
    using h2 by simp
  from repeated_filter_new_alerts [OF h1 h2, of persisting_config 100 105]
    repeated_filter_new_alerts [OF h1 h2, of source_config 100 105]
    h1 h2' h3 h4 h5
  show ?thesis by blast
qed

text \<open>
  Claim C1 as stated, for every setting of UPDATE_JSON, fails with the setting of the source.
\<close>

theorem second_call_not_empty:
  "fst (filter_new_alerts source_config 100 [foo_alert_x] fresh_world) \<noteq> []
   \<and> fst (filter_new_alerts source_config 105 [foo_alert_x]
        (snd (filter_new_alerts source_config 100 [foo_alert_x] fresh_world))) \<noteq> []"
  by code_simp

end
